theory Spec2Isabelle
  imports Main
begin

section \<open>The stock service entry point\<close>

text \<open>
  The program is \<^verbatim>\<open>apps/stock/src/main.ts\<close>:
  \<^verbatim>\<open>
  async function bootstrap() {
    console.log('Stock Service Starting...');
    const app = await NestFactory.create(StockModule);
    await app.listen(process.env.port ?? 3000);
  }
  bootstrap();
  \<close>
  Its only computation is the argument of \<^verbatim>\<open>app.listen\<close>; everything else is a
  sequence of three effects. The effects are modelled as a trace of events, the two awaited
  framework calls as calls that either resolve or reject.
\<close>

subsection \<open>Data\<close>

text \<open>
  The argument of \<^verbatim>\<open>app.listen\<close> has the TypeScript type \<^verbatim>\<open>string | number\<close>:
  an entry of \<^verbatim>\<open>process.env\<close> is a string, the literal \<^verbatim>\<open>3000\<close> is a number.
\<close>

datatype port_arg = PortString string | PortNumber int

text \<open>
  \<^verbatim>\<open>process.env\<close>: a variable is either unset (\<^verbatim>\<open>undefined\<close>) or a string. Names
  are looked up exactly as written, as on the POSIX systems the service is built for.
\<close>

type_synonym environment = "string \<rightharpoonup> string"

text \<open>What bootstrap does to the outside world, in program order.\<close>

datatype event =
    ConsoleLog string
  | NestFactoryCreate
  | AppListen port_arg

text \<open>The promise that \<^verbatim>\<open>bootstrap()\<close> returns: fulfilled, or rejected with an error.\<close>

datatype outcome = Fulfilled | Rejected string

text \<open>
  The framework is outside the repository. What bootstrap can observe of it is whether each
  awaited call resolves (\<open>None\<close>) or rejects with an error (\<open>Some e\<close>); binding depends on
  the value handed to \<^verbatim>\<open>listen\<close>.
\<close>

record framework =
  create_rejects :: "string option"
  listen_rejects :: "port_arg \<Rightarrow> string option"

subsection \<open>Port resolution\<close>

text \<open>
  The expression \<^verbatim>\<open>process.env.port ?? 3000\<close> of line 7, as a function of the value of
  \<^verbatim>\<open>process.env.port\<close>. The operator \<^verbatim>\<open>??\<close> yields its right operand only when the
  left one is \<^verbatim>\<open>undefined\<close> or \<^verbatim>\<open>null\<close>; any string, the empty one included, is
  kept.
\<close>

fun resolvePort :: "string option \<Rightarrow> port_arg" where
  "resolvePort None = PortNumber 3000"
| "resolvePort (Some s) = PortString s"

subsection \<open>Bootstrap\<close>

text \<open>
  Lines 4 to 8. An \<^verbatim>\<open>await\<close> on a rejected promise throws, which ends the function
  and rejects its own promise: nothing after the failing call runs. There is no
  \<^verbatim>\<open>try\<close>, and line 9 drops the promise.
\<close>

definition bootstrap :: "framework \<Rightarrow> environment \<Rightarrow> event list \<times> outcome" where
  "bootstrap fw env =
     (let t1 = [ConsoleLog ''Stock Service Starting...''];
          t2 = t1 @ [NestFactoryCreate]
      in case create_rejects fw of
           Some e \<Rightarrow> (t2, Rejected e)
         | None \<Rightarrow>
             (let p = resolvePort (env ''port'');
                  t3 = t2 @ [AppListen p]
              in case listen_rejects fw p of
                   Some e \<Rightarrow> (t3, Rejected e)
                 | None \<Rightarrow> (t3, Fulfilled)))"

text \<open>Projections of a trace: the values handed to listen, and the lines written to the console.\<close>

fun listen_args :: "event list \<Rightarrow> port_arg list" where
  "listen_args [] = []"
| "listen_args (AppListen p # es) = p # listen_args es"
| "listen_args (e # es) = listen_args es"

fun console_lines :: "event list \<Rightarrow> string list" where
  "console_lines [] = []"
| "console_lines (ConsoleLog s # es) = s # console_lines es"
| "console_lines (e # es) = console_lines es"

subsection \<open>Bootstrap, step by step\<close>

text \<open>
  The same four lines with the state written out. The world is what a step can read or
  change: the process environment, and everything done to the outside so far (console
  output, framework calls, hence also sockets). Each operation of the source is a function
  from the world to its value and the world afterwards.
\<close>

record world =
  w_env :: environment
  w_trace :: "event list"

type_synonym 'a action = "world \<Rightarrow> 'a \<times> world"

text \<open>\<^verbatim>\<open>process.env.NAME\<close>: a property read.\<close>

definition env_get :: "string \<Rightarrow> string option action" where
  "env_get name w = (w_env w name, w)"

text \<open>A number literal.\<close>

definition num_lit :: "int \<Rightarrow> int action" where
  "num_lit n w = (n, w)"

text \<open>
  \<^verbatim>\<open>a ?? b\<close>: the left operand is evaluated first; the right operand is evaluated only when
  the left one is undefined, in the world the left one left behind.
\<close>

definition nullish :: "string option action \<Rightarrow> int action \<Rightarrow> port_arg action" where
  "nullish a b w =
     (case a w of
        (Some s, w1) \<Rightarrow> (PortString s, w1)
      | (None, w1) \<Rightarrow> (case b w1 of (n, w2) \<Rightarrow> (PortNumber n, w2)))"

text \<open>The argument of listen on line 7, \<^verbatim>\<open>process.env.port ?? 3000\<close>.\<close>

definition port_expression :: "port_arg action" where
  "port_expression = nullish (env_get ''port'') (num_lit 3000)"

text \<open>The three calls of the source; each one is recorded in the world.\<close>

definition emit :: "event \<Rightarrow> world \<Rightarrow> world" where
  "emit e w = w\<lparr>w_trace := w_trace w @ [e]\<rparr>"

definition console_log :: "string \<Rightarrow> unit action" where
  "console_log s w = ((), emit (ConsoleLog s) w)"

definition nest_create :: "framework \<Rightarrow> string option action" where
  "nest_create fw w = (create_rejects fw, emit NestFactoryCreate w)"

definition app_listen :: "framework \<Rightarrow> port_arg \<Rightarrow> string option action" where
  "app_listen fw p w = (listen_rejects fw p, emit (AppListen p) w)"

text \<open>Lines 5 to 7 in order; a rejected call ends the run.\<close>

definition bootstrap_steps :: "framework \<Rightarrow> outcome action" where
  "bootstrap_steps fw w0 =
     (case console_log ''Stock Service Starting...'' w0 of
        (u, w1) \<Rightarrow>
          (case nest_create fw w1 of
             (Some e, w2) \<Rightarrow> (Rejected e, w2)
           | (None, w2) \<Rightarrow>
               (case port_expression w2 of
                  (p, w3) \<Rightarrow>
                    (case app_listen fw p w3 of
                       (Some e, w4) \<Rightarrow> (Rejected e, w4)
                     | (None, w4) \<Rightarrow> (Fulfilled, w4)))))"

subsection \<open>The vocabulary of the specification\<close>

text \<open>
  The specification speaks of strings that denote an integer in the legal TCP port range.
  A numeric string is a non-empty string of decimal digits; its value is read in base ten.
\<close>

definition is_digit :: "char \<Rightarrow> bool" where
  "is_digit c = (48 \<le> (of_char c :: nat) \<and> (of_char c :: nat) \<le> 57)"

definition numeric :: "string \<Rightarrow> bool" where
  "numeric s = (s \<noteq> [] \<and> list_all is_digit s)"

definition decimal_value :: "string \<Rightarrow> nat" where
  "decimal_value s = foldl (\<lambda>a c. 10 * a + (of_char c - 48)) 0 s"

definition denotes_legal_port :: "string \<Rightarrow> bool" where
  "denotes_legal_port s = (numeric s \<and> 1 \<le> decimal_value s \<and> decimal_value s \<le> 65535)"

text \<open>
  \<open>spec_resolvePort\<close> follows the words of the specification, not the source: a present
  value that parses as an integer in the legal range is used, anything else falls back to
  the default. It is here to be compared with \<open>resolvePort\<close>.
\<close>

definition spec_resolvePort :: "string option \<Rightarrow> int" where
  "spec_resolvePort v =
     (case v of
        None \<Rightarrow> 3000
      | Some s \<Rightarrow> if denotes_legal_port s then int (decimal_value s) else 3000)"

text \<open>
  The ordering the specification asks for: a console record appears in the trace only after
  a call to listen. \<open>bound\<close> says whether listen has been called so far.
\<close>

fun log_only_after_listen :: "bool \<Rightarrow> event list \<Rightarrow> bool" where
  "log_only_after_listen bound [] = True"
| "log_only_after_listen bound (ConsoleLog s # es) = (bound \<and> log_only_after_listen bound es)"
| "log_only_after_listen bound (AppListen p # es) = log_only_after_listen True es"
| "log_only_after_listen bound (NestFactoryCreate # es) = log_only_after_listen bound es"

text \<open>Frameworks for concrete runs: both calls resolve, the port is taken, creation fails.\<close>

definition fw_ok :: framework where
  "fw_ok = \<lparr>create_rejects = None, listen_rejects = (\<lambda>p. None)\<rparr>"

definition fw_port_in_use :: framework where
  "fw_port_in_use = \<lparr>create_rejects = None, listen_rejects = (\<lambda>p. Some ''EADDRINUSE'')\<rparr>"


text \<open>Two worlds that agree on \<^verbatim>\<open>port\<close> and on nothing else.\<close>

definition world_a :: world where
  "world_a = \<lparr>w_env = Map.empty(''port'' \<mapsto> ''8080''), w_trace = []\<rparr>"

definition world_b :: world where
  "world_b = \<lparr>w_env = Map.empty(''port'' \<mapsto> ''8080'', ''HOME'' \<mapsto> ''/root''),
              w_trace = [ConsoleLog ''Stock Service Starting...'', NestFactoryCreate]\<rparr>"

section \<open>Properties\<close>

subsection \<open>Helper facts\<close>

lemma bootstrap_trace_created:
  assumes "create_rejects fw = None"
  shows "fst (bootstrap fw env) =
    [ConsoleLog ''Stock Service Starting...'', NestFactoryCreate, AppListen (resolvePort (env ''port''))]"
  using assms by (simp add: bootstrap_def Let_def split: option.splits)


lemma bootstrap_ignores_other_variables:
  assumes "env1 ''port'' = env2 ''port''"
  shows "bootstrap fw env1 = bootstrap fw env2"
  unfolding bootstrap_def assms by (rule refl)

lemma bootstrap_console_lines:
  "console_lines (fst (bootstrap fw env)) = [''Stock Service Starting...'']"
  by (simp add: bootstrap_def Let_def split: option.splits)

lemma bootstrap_listen_args:
  "listen_args (fst (bootstrap fw env)) =
     (if create_rejects fw = None then [resolvePort (env ''port'')] else [])"
  by (simp add: bootstrap_def Let_def split: option.splits)

text \<open>
  The step-by-step run and \<open>bootstrap\<close> agree: the run appends the trace of \<open>bootstrap\<close> to
  the world it starts from, and ends with the outcome of \<open>bootstrap\<close>.
\<close>

lemma port_expression_eval:
  "port_expression w = (resolvePort (w_env w ''port''), w)"
  by (cases "w_env w ''port''")
    (simp_all add: port_expression_def nullish_def env_get_def num_lit_def)

lemma bootstrap_steps_run:
  "bootstrap_steps fw w =
     (snd (bootstrap fw (w_env w)), w\<lparr>w_trace := w_trace w @ fst (bootstrap fw (w_env w))\<rparr>)"
  by (simp add: bootstrap_steps_def bootstrap_def console_log_def nest_create_def app_listen_def
      emit_def port_expression_eval Let_def split: option.splits)

text \<open>
  A failing framework call rejects the promise of bootstrap with the framework's own error.
  Bootstrap writes nothing but its first line, and the source neither catches the error nor
  sets an exit status.
\<close>

lemma bootstrap_listen_rejection:
  assumes "create_rejects fw = None" and "listen_rejects fw (resolvePort (env ''port'')) = Some e"
  shows "snd (bootstrap fw env) = Rejected e"
  using assms by (simp add: bootstrap_def Let_def)

lemma bootstrap_port_in_use_run:
  "bootstrap fw_port_in_use Map.empty =
     ([ConsoleLog ''Stock Service Starting...'', NestFactoryCreate, AppListen (PortNumber 3000)],
      Rejected ''EADDRINUSE'')"
  by (simp add: bootstrap_def fw_port_in_use_def)


subsection \<open>Invalid overrides\<close>

text \<open>
  C1, as stated, fails. The claim is that a non-numeric or out-of-range override makes port
  resolution return the default 3000. The source does not parse the value: for
  \<^verbatim>\<open>port=not-a-number\<close> and for \<^verbatim>\<open>port=70000\<close> the result is the string itself,
  and listen is called with it.
\<close>

theorem C1_invalid_override_counterexample:
  "\<not> denotes_legal_port ''not-a-number'' \<and>
   resolvePort (Some ''not-a-number'') \<noteq> PortNumber 3000 \<and>
   \<not> denotes_legal_port ''70000'' \<and>
   resolvePort (Some ''70000'') \<noteq> PortNumber 3000 \<and>
   listen_args (fst (bootstrap fw_ok (Map.empty(''port'' \<mapsto> ''not-a-number'')))) =
     [PortString ''not-a-number'']"
  by (simp add: denotes_legal_port_def numeric_def is_digit_def decimal_value_def
      bootstrap_listen_args fw_ok_def)

text \<open>
  C1, amended. For every override string that is non-numeric or denotes an integer outside
  [1, 65535], port resolution returns that string unchanged: not the default 3000, and not
  an error. Once the application has been created, listen is called with exactly that
  string.
\<close>

theorem C1_invalid_override_kept:
  assumes "\<not> denotes_legal_port s" and "env ''port'' = Some s" and "create_rejects fw = None"
  shows "resolvePort (env ''port'') = PortString s \<and>
         resolvePort (env ''port'') \<noteq> PortNumber 3000 \<and>
         listen_args (fst (bootstrap fw env)) = [PortString s]"
  using assms by (simp add: bootstrap_listen_args)

theorem C1_invalid_override_kept_witness:
  "\<not> denotes_legal_port ''not-a-number'' \<and>
   (Map.empty(''port'' \<mapsto> ''not-a-number'')) ''port'' = Some ''not-a-number'' \<and>
   create_rejects fw_ok = None \<and>
   resolvePort ((Map.empty(''port'' \<mapsto> ''not-a-number'')) ''port'') = PortString ''not-a-number'' \<and>
   listen_args (fst (bootstrap fw_ok (Map.empty(''port'' \<mapsto> ''not-a-number'')))) =
     [PortString ''not-a-number'']"
proof -
  have h1: "\<not> denotes_legal_port ''not-a-number''"
    by (simp add: denotes_legal_port_def numeric_def is_digit_def)
  have h2: "(Map.empty(''port'' \<mapsto> ''not-a-number'')) ''port'' = Some ''not-a-number''"
    by simp
  have h3: "create_rejects fw_ok = None"
    by (simp add: fw_ok_def)
  show ?thesis
    using h1 h2 h3
      C1_invalid_override_kept [of "''not-a-number''" "Map.empty(''port'' \<mapsto> ''not-a-number'')" fw_ok]
    by simp
qed

subsection \<open>Valid overrides\<close>

text \<open>
  C2, as stated, fails. The claim is that for a string denoting an integer in [1, 65535]
  port resolution returns that integer. For \<^verbatim>\<open>port=3001\<close> the specification's
  resolution gives the number 3001; the source gives the string \<^verbatim>\<open>"3001"\<close>, and listen
  is called with the string.
\<close>

theorem C2_valid_override_counterexample:
  "denotes_legal_port ''3001'' \<and>
   spec_resolvePort (Some ''3001'') = 3001 \<and>
   resolvePort (Some ''3001'') \<noteq> PortNumber (spec_resolvePort (Some ''3001'')) \<and>
   listen_args (fst (bootstrap fw_ok (Map.empty(''port'' \<mapsto> ''3001'')))) = [PortString ''3001'']"
  by (simp add: spec_resolvePort_def denotes_legal_port_def numeric_def is_digit_def
      decimal_value_def bootstrap_listen_args fw_ok_def)

text \<open>
  C2, amended. For every string p that denotes an integer in [1, 65535], port resolution
  returns p itself, as a string; the integer the specification expects is the decimal value
  of that string. Once the application has been created, listen is called with the string p.
\<close>

theorem C2_valid_override_kept_as_string:
  assumes "denotes_legal_port s" and "env ''port'' = Some s" and "create_rejects fw = None"
  shows "resolvePort (env ''port'') = PortString s \<and>
         int (decimal_value s) = spec_resolvePort (env ''port'') \<and>
         listen_args (fst (bootstrap fw env)) = [PortString s]"
  using assms by (simp add: bootstrap_listen_args spec_resolvePort_def)

theorem C2_valid_override_kept_as_string_witness:
  "denotes_legal_port ''3001'' \<and>
   create_rejects fw_ok = None \<and>
   resolvePort ((Map.empty(''port'' \<mapsto> ''3001'')) ''port'') = PortString ''3001'' \<and>
   spec_resolvePort ((Map.empty(''port'' \<mapsto> ''3001'')) ''port'') = 3001 \<and>
   listen_args (fst (bootstrap fw_ok (Map.empty(''port'' \<mapsto> ''3001'')))) = [PortString ''3001'']"
proof -
  have h1: "denotes_legal_port ''3001''"
    by (simp add: denotes_legal_port_def numeric_def is_digit_def decimal_value_def)
  have h2: "(Map.empty(''port'' \<mapsto> ''3001'')) ''port'' = Some ''3001''"
    by simp
  have h3: "create_rejects fw_ok = None"
    by (simp add: fw_ok_def)
  have "int (decimal_value ''3001'') = 3001"
    by (simp add: decimal_value_def)
  then show ?thesis
    using h1 h2 h3
      C2_valid_override_kept_as_string [of "''3001''" "Map.empty(''port'' \<mapsto> ''3001'')" fw_ok]
    by simp
qed

subsection \<open>The start-up record\<close>

text \<open>
  C3, as stated, fails. The claim is that the start-up record is emitted only after the
  socket is bound and that it states the port. In the run where both framework calls
  resolve, the record is the first event, before the application is created and before
  listen is called, and its text has no port in it.
\<close>

theorem C3_log_before_listen_counterexample:
  "bootstrap fw_ok Map.empty =
     ([ConsoleLog ''Stock Service Starting...'', NestFactoryCreate, AppListen (PortNumber 3000)],
      Fulfilled) \<and>
   \<not> log_only_after_listen False (fst (bootstrap fw_ok Map.empty))"
  by (simp add: bootstrap_def fw_ok_def)

text \<open>
  C3, amended. In every execution of bootstrap the single start-up record is the first
  event: it is emitted before the application is created and before any call to listen, and
  its text is the constant \<^verbatim>\<open>Stock Service Starting...\<close>, which does not state the port.
\<close>

theorem C3_log_is_first_event:
  "\<exists>rest. fst (bootstrap fw env) = ConsoleLog ''Stock Service Starting...'' # rest \<and>
          console_lines rest = [] \<and>
          listen_args rest = listen_args (fst (bootstrap fw env))"
  by (simp add: bootstrap_def Let_def split: option.splits)

subsection \<open>Absent override\<close>

text \<open>
  C4. When the override is absent (\<^verbatim>\<open>process.env.port\<close> is undefined), port resolution
  returns the default 3000, and that number is what listen is called with once the
  application has been created.
\<close>

theorem C4_absent_override_default:
  assumes "env ''port'' = None" and "create_rejects fw = None"
  shows "resolvePort (env ''port'') = PortNumber 3000 \<and>
         listen_args (fst (bootstrap fw env)) = [PortNumber 3000]"
  using assms by (simp add: bootstrap_trace_created)

theorem C4_absent_override_default_witness:
  "Map.empty ''port'' = None \<and> create_rejects fw_ok = None \<and>
   resolvePort (Map.empty ''port'') = PortNumber 3000 \<and>
   listen_args (fst (bootstrap fw_ok Map.empty)) = [PortNumber 3000]"
  using C4_absent_override_default [of Map.empty fw_ok] by (simp add: fw_ok_def)

subsection \<open>The name of the override\<close>

text \<open>
  C5, as stated, fails. The claim is that with \<^verbatim>\<open>PORT=3001\<close> in the environment the
  service listens on 3001. The source reads the variable named \<^verbatim>\<open>port\<close>; with only
  \<^verbatim>\<open>PORT\<close> set, listen is called with the default 3000.
\<close>

theorem C5_uppercase_PORT_counterexample:
  "listen_args (fst (bootstrap fw_ok (Map.empty(''PORT'' \<mapsto> ''3001'')))) = [PortNumber 3000] \<and>
   PortNumber 3001 \<notin> set (listen_args (fst (bootstrap fw_ok (Map.empty(''PORT'' \<mapsto> ''3001''))))) \<and>
   PortString ''3001'' \<notin> set (listen_args (fst (bootstrap fw_ok (Map.empty(''PORT'' \<mapsto> ''3001'')))))"
  by (simp add: bootstrap_listen_args fw_ok_def)

text \<open>
  C5, amended. When the environment contains the variable named \<^verbatim>\<open>port\<close> set to
  \<^verbatim>\<open>3001\<close>, listen is called with the string \<^verbatim>\<open>"3001"\<close> once the application has
  been created. The variable named \<^verbatim>\<open>PORT\<close> is not consulted: setting, changing or
  unsetting it changes nothing of the run.
\<close>

theorem C5_lowercase_port_override:
  assumes "env ''port'' = Some ''3001''" and "create_rejects fw = None"
  shows "listen_args (fst (bootstrap fw env)) = [PortString ''3001''] \<and>
         bootstrap fw (env(''PORT'' := v)) = bootstrap fw env"
proof -
  have "(env(''PORT'' := v)) ''port'' = env ''port''"
    by simp
  then have "bootstrap fw (env(''PORT'' := v)) = bootstrap fw env"
    by (rule bootstrap_ignores_other_variables)
  with assms show ?thesis
    by (simp add: bootstrap_listen_args)
qed

theorem C5_lowercase_port_override_witness:
  "create_rejects fw_ok = None \<and>
   listen_args (fst (bootstrap fw_ok (Map.empty(''port'' \<mapsto> ''3001'')))) = [PortString ''3001''] \<and>
   bootstrap fw_ok ((Map.empty(''port'' \<mapsto> ''3001''))(''PORT'' := Some ''9999'')) =
     bootstrap fw_ok (Map.empty(''port'' \<mapsto> ''3001''))"
proof -
  have h1: "(Map.empty(''port'' \<mapsto> ''3001'')) ''port'' = Some ''3001''"
    by simp
  have h2: "create_rejects fw_ok = None"
    by (simp add: fw_ok_def)
  show ?thesis
    using h1 h2
      C5_lowercase_port_override [of "Map.empty(''port'' \<mapsto> ''3001'')" fw_ok "Some ''9999''"]
    by simp
qed

subsection \<open>Purity of port resolution\<close>

text \<open>
  C7. Port resolution is a pure function of the override. Evaluating the expression
  \<^verbatim>\<open>process.env.port ?? 3000\<close> returns the world it was given: the environment is not
  changed and nothing is added to what has been done to the outside (no console output, no
  framework call, no socket). Its value is determined by the override alone: evaluating it
  a second time gives the same port, and so does evaluating it in any other world that has
  the same override. In a run where the application is created, the events are the log,
  the creation and the listen call, and none comes from resolving the port.
\<close>

theorem C7_port_expression_pure:
  assumes "w_env w1 ''port'' = w_env w2 ''port''" and "create_rejects fw = None"
  shows "port_expression w1 = (resolvePort (w_env w1 ''port''), w1) \<and>
         port_expression (snd (port_expression w1)) = port_expression w1 \<and>
         fst (port_expression w1) = fst (port_expression w2) \<and>
         snd (bootstrap_steps fw w1) =
           w1\<lparr>w_trace := w_trace w1 @
             [ConsoleLog ''Stock Service Starting...'', NestFactoryCreate,
              AppListen (fst (port_expression w1))]\<rparr>"
  using assms by (simp add: port_expression_eval bootstrap_steps_run bootstrap_trace_created)

theorem C7_port_expression_pure_witness:
  "w_env world_a ''port'' = w_env world_b ''port'' \<and>
   create_rejects fw_port_in_use = None \<and>
   port_expression world_a = (PortString ''8080'', world_a) \<and>
   port_expression world_b = (PortString ''8080'', world_b) \<and>
   snd (bootstrap_steps fw_port_in_use world_a) =
     world_a\<lparr>w_trace :=
       [ConsoleLog ''Stock Service Starting...'', NestFactoryCreate, AppListen (PortString ''8080'')]\<rparr>"
proof -
  have h: "w_env world_a ''port'' = w_env world_b ''port''"
    by (simp add: world_a_def world_b_def)
  have c: "create_rejects fw_port_in_use = None"
    by (simp add: fw_port_in_use_def)
  have a: "w_env world_a ''port'' = Some ''8080''"
    by (simp add: world_a_def)
  have b: "w_env world_b ''port'' = Some ''8080''"
    by (simp add: world_b_def)
  have t: "w_trace world_a = []"
    by (simp add: world_a_def)
  show ?thesis
    using h c a b t
      C7_port_expression_pure [of world_a world_b fw_port_in_use]
      C7_port_expression_pure [of world_b world_a fw_port_in_use]
    by simp
qed

subsection \<open>One resolution per run\<close>



subsection \<open>When the default is used\<close>

text \<open>
  C9. The default 3000 is used exactly when the variable \<^verbatim>\<open>port\<close> is undefined. For
  every string value of it, the empty string and non-numeric text included, listen is
  called with that very string: nothing is parsed, trimmed or range-checked.
\<close>

theorem C9_fallback_only_when_undefined:
  assumes "create_rejects fw = None"
  shows "(listen_args (fst (bootstrap fw env)) = [PortNumber 3000]) = (env ''port'' = None) \<and>
         (\<forall>s. env ''port'' = Some s \<longrightarrow> listen_args (fst (bootstrap fw env)) = [PortString s])"
  using assms by (cases "env ''port''") (simp_all add: bootstrap_listen_args)

theorem C9_fallback_only_when_undefined_witness:
  "create_rejects fw_ok = None \<and>
   listen_args (fst (bootstrap fw_ok (Map.empty(''port'' \<mapsto> '''')))) = [PortString ''''] \<and>
   listen_args (fst (bootstrap fw_ok (Map.empty(''port'' \<mapsto> '''')))) \<noteq> [PortNumber 3000]"
proof -
  have h: "create_rejects fw_ok = None"
    by (simp add: fw_ok_def)
  show ?thesis
    using h C9_fallback_only_when_undefined [of fw_ok "Map.empty(''port'' \<mapsto> '''')"] by simp
qed

subsection \<open>The log line\<close>

text \<open>
  C10. Every run of bootstrap writes exactly one line to the console, the constant
  \<^verbatim>\<open>Stock Service Starting...\<close>; the console output of any two runs is the same,
  whatever the environment and whatever the framework does.
\<close>

theorem C10_one_constant_log_line:
  "console_lines (fst (bootstrap fw env)) = [''Stock Service Starting...''] \<and>
   console_lines (fst (bootstrap fw1 env1)) = console_lines (fst (bootstrap fw2 env2))"
  by (simp add: bootstrap_console_lines)

end
